theory Spec2Isabelle
  imports Main "HOL-Library.AList"
begin

section \<open>Telemetry emitter\<close>

text \<open>
  The emitter of \<^verbatim>\<open>telemetryEmitter\<close> is a closure over mutable variables
  (\<^verbatim>\<open>distinctId\<close>, \<^verbatim>\<open>groupIdentities\<close>, \<^verbatim>\<open>pendingEvents\<close>,
  \<^verbatim>\<open>debounceDisabled\<close>, \<^verbatim>\<open>commonProperties\<close>). It is modelled by a record of
  these variables, passed through every operation and returned updated. The same record
  holds the variables of the two library closures the emitter builds
  (\<^verbatim>\<open>debounce(flush, 3000, { maxWait: 8000 })\<close> and \<^verbatim>\<open>pLimit(1)\<close>) and what the emitter
  does to the outside world: the requests handed to \<^verbatim>\<open>fetch\<close>, the lines written to
  \<^verbatim>\<open>process.stderr\<close>, how the awaited calls of \<^verbatim>\<open>flush()\<close> ended, and the rejections
  of the flushes that nobody awaits.

  A call of the emitter runs to its end without interruption; an \<^verbatim>\<open>await\<close> ends a
  step. So a flush is two steps, the part before \<^verbatim>\<open>await req\<close> and the part after it,
  and any other call may fall between the two.
\<close>

subsection \<open>Property bags\<close>

text \<open>
  A \<^verbatim>\<open>TelemetryProperties\<close> object is a list of key/value pairs in the order in which
  JavaScript enumerates them. \<open>PGroups\<close> stands for a reference to the emitter's own
  \<^verbatim>\<open>groupIdentities\<close> object (\<^verbatim>\<open>$groups: groupIdentities\<close> stores the object itself,
  not a copy).
\<close>

datatype pval =
    PStr string
  | PNum int
  | PBool bool
  | PUndefined
  | PNull
  | PObj "(string \<times> pval) list"
  | PGroups

type_synonym TelemetryProperties = "(string \<times> pval) list"

text \<open>A key that is a canonical array index (decimal digits with no leading zero, below
  \<open>2^32 - 1\<close>) is enumerated before every other key, in ascending order; the other keys
  follow in the order of their insertion.\<close>

definition digit_of :: "char \<Rightarrow> nat option" where
  "digit_of c = map_of (zip ''0123456789'' [0, 1, 2, 3, 4, 5, 6, 7, 8, 9]) c"

fun digits_value :: "string \<Rightarrow> nat \<Rightarrow> nat option" where
  "digits_value [] acc = Some acc"
| "digits_value (c # cs) acc =
     (case digit_of c of None \<Rightarrow> None | Some d \<Rightarrow> digits_value cs (10 * acc + d))"

definition array_index :: "string \<Rightarrow> nat option" where
  "array_index k =
     (if k = [] \<or> (length k > 1 \<and> hd k = CHR ''0'') then None
      else case digits_value k 0 of
             None \<Rightarrow> None
           | Some n \<Rightarrow> if n < 4294967295 then Some n else None)"

fun insert_index :: "nat \<Rightarrow> string \<Rightarrow> pval \<Rightarrow> TelemetryProperties \<Rightarrow> TelemetryProperties" where
  "insert_index n k v [] = [(k, v)]"
| "insert_index n k v ((k', v') # rest) =
     (case array_index k' of
        None \<Rightarrow> (k, v) # (k', v') # rest
      | Some m \<Rightarrow> if m < n then (k', v') # insert_index n k v rest
                  else (k, v) # (k', v') # rest)"

text \<open>Setting one property: a key the object has keeps its place and takes the new
  value; a new key goes to its place in the enumeration order.\<close>

definition set_prop :: "string \<Rightarrow> pval \<Rightarrow> TelemetryProperties \<Rightarrow> TelemetryProperties" where
  "set_prop k v obj =
     (if k \<in> fst ` set obj then AList.update k v obj
      else case array_index k of
             None \<Rightarrow> obj @ [(k, v)]
           | Some n \<Rightarrow> insert_index n k v obj)"

text \<open>Object spread \<^verbatim>\<open>{...a, ...b}\<close> and \<^verbatim>\<open>Object.assign(a, b)\<close>: the properties of
  \<open>b\<close> are set on \<open>a\<close> one after the other.\<close>

definition spread :: "TelemetryProperties \<Rightarrow> TelemetryProperties \<Rightarrow> TelemetryProperties" where
  "spread a b = fold (\<lambda>(k, v). set_prop k v) b a"

text \<open>JavaScript truthiness of a string and of an optional string.\<close>

definition truthy :: "string \<Rightarrow> bool" where
  "truthy s = (s \<noteq> [])"

definition truthy_opt :: "string option \<Rightarrow> bool" where
  "truthy_opt x = (case x of None \<Rightarrow> False | Some s \<Rightarrow> truthy s)"

subsection \<open>Events, requests and the emitter state\<close>

datatype GroupIdentityType = Profile

fun group_type_name :: "GroupIdentityType \<Rightarrow> string" where
  "group_type_name Profile = ''profile''"

text \<open>An event as the emitter builds it; the field \<^verbatim>\<open>$set\<close>, which only \<^verbatim>\<open>identify\<close>
  gives, is \<open>person_set\<close>, and the timestamp \<^verbatim>\<open>new Date()\<close> is a number.\<close>

record TelemetryEvent =
  event :: string
  timestamp :: nat
  distinct_id :: string
  person_set :: "TelemetryProperties option"
  properties :: TelemetryProperties

record request =
  req_url :: string
  req_method :: string
  req_content_type :: string
  req_redirect :: string
  req_body :: string

text \<open>What awaiting the \<^verbatim>\<open>fetch\<close> promise gives: a response (\<^verbatim>\<open>ok\<close>, \<^verbatim>\<open>status\<close>,
  \<^verbatim>\<open>statusText\<close>, \<^verbatim>\<open>url\<close>) or a rejection (a network error).\<close>

datatype fetch_result =
    Response bool nat string string
  | FetchError string

text \<open>How an awaited \<^verbatim>\<open>flush\<close> ends: it resolves, or it rejects with the error of
  \<^verbatim>\<open>fetch\<close>.\<close>

datatype outcome = Resolved | Rejected string

record host =
  h_platform :: string
  h_arch :: string
  h_node :: string
  h_v8 :: string
  h_openssl :: string
  h_os_version :: string
  h_os_release :: string
  h_env_CI :: "string option"
  h_ci_provider :: "(string \<times> string option) option"
  h_shell :: "string option"
  h_EOL :: string


text \<open>Who waits for a flush: the caller of the public \<^verbatim>\<open>flush()\<close>, which awaits it, or
  nobody (\<^verbatim>\<open>void flush()\<close> in \<^verbatim>\<open>pushEvent\<close>, and the call that \<^verbatim>\<open>debounce\<close> makes).\<close>

datatype owner = Awaited | Detached

text \<open>
  The state. After the variables of the emitter come those of the closure that
  \<^verbatim>\<open>debounce\<close> returns (\<open>lastArgs\<close>: whether it is set; \<open>timerId\<close>: whether a timeout
  is pending), the limiter (the flushes handed to \<^verbatim>\<open>flushLimit\<close> that have not started,
  oldest first, and the one whose request is in flight), and the outside world.
\<close>

record emitter =
  machineId :: string
  distinctId :: string
  groupIdentities :: "(GroupIdentityType \<times> string) list"
  pendingEvents :: "TelemetryEvent list"
  debounceDisabled :: bool
  commonProperties :: TelemetryProperties
  debug :: int
  eol :: string
  lastArgs :: bool
  lastCallTime :: "nat option"
  lastInvokeTime :: nat
  timerId :: bool
  waiting :: "owner list"
  inflight :: "owner option"
  requests :: "request list"
  stderr_lines :: "string list"
  settled :: "outcome list"
  unhandled :: "string list"

definition TELEMETRY_URL :: string where
  "TELEMETRY_URL = ''https://telemetry.preevy.dev/v1/event''"

text \<open>\<^verbatim>\<open>commonProperties\<close> as built when the emitter is created. \<^verbatim>\<open>detectCiProvider()\<close>
  gives a provider (its name and what \<^verbatim>\<open>pullRequestNumber()\<close> returns) or nothing.\<close>

definition initialProperties :: "host \<Rightarrow> string \<Rightarrow> string \<Rightarrow> string \<Rightarrow> TelemetryProperties" where
  "initialProperties h version mid rid =
     [(''platform'', PStr (h_platform h)),
      (''arch'', PStr (h_arch h)),
      (''versions'', PObj
         [(''node'', PStr (h_node h)),
          (''v8'', PStr (h_v8 h)),
          (''openssl'', PStr (h_openssl h)),
          (''os'', PStr (h_os_version h)),
          (''os_release'', PStr (h_os_release h))]),
      (''is_ci'', PBool (truthy_opt (h_env_CI h))),
      (''is_ci_pr'', PBool (case h_ci_provider h of None \<Rightarrow> False | Some (_, pr) \<Rightarrow> truthy_opt pr)),
      (''ci_provider'', (case h_ci_provider h of None \<Rightarrow> PUndefined | Some (name, _) \<Rightarrow> PStr name)),
      (''version'', PStr version),
      (''shell'', (case h_shell h of None \<Rightarrow> PNull | Some sh \<Rightarrow> PStr sh)),
      (''$device_id'', PStr mid),
      (''run_id'', PStr rid)]"

text \<open>\<^verbatim>\<open>telemetryEmitter({ dataDir, version, debug })\<close>. The machine id that
  \<^verbatim>\<open>await memoizedMachineId(dataDir)\<close> gives and the run id that \<^verbatim>\<open>newRunId()\<close> draws
  at random are inputs here.\<close>

definition telemetryEmitter :: "host \<Rightarrow> string \<Rightarrow> string \<Rightarrow> string \<Rightarrow> int \<Rightarrow> emitter" where
  "telemetryEmitter h memoizedMachineId newRunId version dbg =
     \<lparr> machineId = memoizedMachineId,
       distinctId = memoizedMachineId,
       groupIdentities = [],
       pendingEvents = [],
       debounceDisabled = False,
       commonProperties = initialProperties h version memoizedMachineId newRunId,
       debug = dbg,
       eol = h_EOL h,
       lastArgs = False,
       lastCallTime = None,
       lastInvokeTime = 0,
       timerId = False,
       waiting = [],
       inflight = None,
       requests = [],
       stderr_lines = [],
       settled = [],
       unhandled = [] \<rparr>"


subsection \<open>Flushing\<close>

text \<open>Decimal digits of a number, for the status in the error line.\<close>

fun show_nat :: "nat \<Rightarrow> string" where
  "show_nat n =
     (if n < 10 then [''0123456789'' ! n]
      else show_nat (n div 10) @ [''0123456789'' ! (n mod 10)])"

declare show_nat.simps [simp del]

text \<open>An event as \<^verbatim>\<open>serializableEvent\<close> sees it when the batch is built: the reference
  held under a top-level property is followed to the group identities of that moment.\<close>

definition groups_object :: "(GroupIdentityType \<times> string) list \<Rightarrow> pval" where
  "groups_object gi = PObj (map (\<lambda>(t, i). (group_type_name t, PStr i)) gi)"

definition deref :: "(GroupIdentityType \<times> string) list \<Rightarrow> TelemetryEvent \<Rightarrow> TelemetryEvent" where
  "deref gi e =
     e\<lparr>properties := map (\<lambda>(k, v). (k, if v = PGroups then groups_object gi else v)) (properties e)\<rparr>"

text \<open>
  The function that \<^verbatim>\<open>flush\<close> runs under \<^verbatim>\<open>flushLimit\<close>, in its two parts.
  \<open>flush_send\<close> is the part before \<^verbatim>\<open>await req\<close>: nothing to do on an empty queue
  (\<open>None\<close>); otherwise the body is built from the whole queue, the queue is emptied and
  the request is handed to \<^verbatim>\<open>fetch\<close>. \<^verbatim>\<open>serializableEvent\<close> and \<^verbatim>\<open>stringify\<close> are
  imported by the source and are parameters here.
\<close>

definition flush_send ::
  "(TelemetryEvent \<Rightarrow> 'j) \<Rightarrow> ('j list \<Rightarrow> string) \<Rightarrow> emitter \<Rightarrow> emitter option" where
  "flush_send serializableEvent stringify s =
     (if pendingEvents s = [] then None
      else
        let body = stringify (map serializableEvent (map (deref (groupIdentities s)) (pendingEvents s)));
            s1 = s\<lparr>pendingEvents := []\<rparr>;
            req = \<lparr> req_url = TELEMETRY_URL, req_method = ''POST'',
                    req_content_type = ''application/json'', req_redirect = ''follow'',
                    req_body = body \<rparr>
        in Some (s1\<lparr>requests := requests s1 @ [req]\<rparr>))"

text \<open>\<open>flush_settle\<close> is the part after \<^verbatim>\<open>await req\<close>: a rejected \<^verbatim>\<open>fetch\<close> rejects the
  flush (nothing catches it); a response that is not ok is reported on stderr when
  \<^verbatim>\<open>debug\<close> is truthy.\<close>

definition flush_settle :: "fetch_result \<Rightarrow> emitter \<Rightarrow> outcome \<times> emitter" where
  "flush_settle r s =
     (case r of
        FetchError e \<Rightarrow> (Rejected e, s)
      | Response ok status statusText rurl \<Rightarrow>
          if \<not> ok \<and> debug s \<noteq> 0
          then (Resolved, s\<lparr>stderr_lines := stderr_lines s @
                  [''Error sending telemetry: '' @ show_nat status @ '' '' @ statusText @ '' '' @ rurl @ eol s]\<rparr>)
          else (Resolved, s))"

text \<open>
  \<^verbatim>\<open>flush\<close> itself, \<^verbatim>\<open>async () => await flushLimit(...)\<close>: a call hands the function
  above to the limiter and returns a promise. \<^verbatim>\<open>flushLimit\<close> is \<^verbatim>\<open>pLimit(1)\<close> of the
  imported \<^verbatim>\<open>p-limit\<close>: it starts a function it was handed on a later tick, oldest
  first, and only when none is running.
\<close>

definition flush :: "owner \<Rightarrow> emitter \<Rightarrow> emitter" where
  "flush who s = s\<lparr>waiting := waiting s @ [who]\<rparr>"

text \<open>The end of a flush: the caller that awaits it gets the outcome; a rejection that
  nobody awaits is an unhandled rejection of the process.\<close>

definition finish :: "owner \<Rightarrow> outcome \<Rightarrow> emitter \<Rightarrow> emitter" where
  "finish who out s =
     (case who of
        Awaited \<Rightarrow> s\<lparr>settled := settled s @ [out]\<rparr>
      | Detached \<Rightarrow>
          (case out of
             Resolved \<Rightarrow> s
           | Rejected e \<Rightarrow> s\<lparr>unhandled := unhandled s @ [e]\<rparr>))"

text \<open>The limiter starts the oldest waiting flush, when none is running: the flush runs
  up to its \<^verbatim>\<open>await\<close>, or to its end on an empty queue.\<close>

definition flushLimit_start ::
  "(TelemetryEvent \<Rightarrow> 'j) \<Rightarrow> ('j list \<Rightarrow> string) \<Rightarrow> emitter \<Rightarrow> emitter" where
  "flushLimit_start serializableEvent stringify s =
     (if inflight s \<noteq> None then s
      else case waiting s of
             [] \<Rightarrow> s
           | who # rest \<Rightarrow>
               (case flush_send serializableEvent stringify (s\<lparr>waiting := rest\<rparr>) of
                  None \<Rightarrow> finish who Resolved (s\<lparr>waiting := rest\<rparr>)
                | Some s1 \<Rightarrow> s1\<lparr>inflight := Some who\<rparr>))"

text \<open>The request in flight settles: the flush that awaits it runs to its end.\<close>

definition flushLimit_settle :: "fetch_result \<Rightarrow> emitter \<Rightarrow> emitter" where
  "flushLimit_settle r s =
     (case inflight s of
        None \<Rightarrow> s
      | Some who \<Rightarrow>
          (case flush_settle r (s\<lparr>inflight := None\<rparr>) of
             (out, s1) \<Rightarrow> finish who out s1))"

subsection \<open>The debounced flush\<close>

text \<open>
  \<^verbatim>\<open>debouncedFlush = debounce(flush, 3000, { maxWait: 8000 })\<close>, with \<^verbatim>\<open>debounce\<close> of the
  imported \<^verbatim>\<open>lodash\<close>: no leading call, a trailing call, a maximal wait. The functions
  below are those of its closure, on the clock reading \<open>t\<close> (milliseconds).
\<close>

definition wait_ms :: int where
  "wait_ms = 3000"

definition maxWait_ms :: int where
  "maxWait_ms = 8000"

definition shouldInvoke :: "nat \<Rightarrow> emitter \<Rightarrow> bool" where
  "shouldInvoke t s =
     (case lastCallTime s of
        None \<Rightarrow> True
      | Some lc \<Rightarrow>
          int t - int lc \<ge> wait_ms \<or> int t - int lc < 0 \<or>
          int t - int (lastInvokeTime s) \<ge> maxWait_ms)"

text \<open>\<^verbatim>\<open>invokeFunc\<close> calls \<^verbatim>\<open>flush()\<close>; the promise it returns is kept as a result and
  awaited by nobody.\<close>

definition invokeFunc :: "nat \<Rightarrow> emitter \<Rightarrow> emitter" where
  "invokeFunc t s = flush Detached (s\<lparr>lastArgs := False, lastInvokeTime := t\<rparr>)"

text \<open>A call \<^verbatim>\<open>debouncedFlush()\<close>. When it is time to invoke and no timeout is pending,
  this is the leading edge: a timeout is set and nothing is called. When it is time to
  invoke and a timeout is still pending, the timeout is set anew and \<^verbatim>\<open>flush()\<close> is
  called at once. Otherwise a timeout is set unless one is pending.\<close>

definition debouncedFlush :: "nat \<Rightarrow> emitter \<Rightarrow> emitter" where
  "debouncedFlush t s =
     (let isInvoking = shouldInvoke t s;
          s1 = s\<lparr>lastArgs := True, lastCallTime := Some t\<rparr>
      in if isInvoking
         then (if \<not> timerId s1 then s1\<lparr>lastInvokeTime := t, timerId := True\<rparr>
               else invokeFunc t (s1\<lparr>timerId := True\<rparr>))
         else (if \<not> timerId s1 then s1\<lparr>timerId := True\<rparr> else s1))"

text \<open>The pending timeout runs \<^verbatim>\<open>timerExpired\<close>: on the trailing edge \<^verbatim>\<open>flush()\<close> is
  called if a call came since the last invocation; when it is not yet time, the timeout
  is set anew.\<close>

definition timerExpired :: "nat \<Rightarrow> emitter \<Rightarrow> emitter" where
  "timerExpired t s =
     (if \<not> timerId s then s
      else if shouldInvoke t s
      then (let s1 = s\<lparr>timerId := False\<rparr>
            in if lastArgs s1 then invokeFunc t s1 else s1\<lparr>lastArgs := False\<rparr>)
      else s)"

definition debouncedFlush_cancel :: "emitter \<Rightarrow> emitter" where
  "debouncedFlush_cancel s =
     s\<lparr>timerId := False, lastInvokeTime := 0, lastArgs := False, lastCallTime := None\<rparr>"

text \<open>\<^verbatim>\<open>pushEvent\<close>. The clock that \<^verbatim>\<open>debounce\<close> reads is taken to show the time that
  \<^verbatim>\<open>new Date()\<close> gave the event in the same call.\<close>

definition pushEvent :: "TelemetryEvent \<Rightarrow> emitter \<Rightarrow> emitter" where
  "pushEvent e s =
     (let s1 = s\<lparr>pendingEvents := pendingEvents s @ [e]\<rparr>
      in if debounceDisabled s1 then flush Detached s1 else debouncedFlush (timestamp e) s1)"


text \<open>The request that a flush makes for the queue of a state.\<close>

abbreviation batch_request :: "(TelemetryEvent \<Rightarrow> 'j) \<Rightarrow> ('j list \<Rightarrow> string) \<Rightarrow> emitter \<Rightarrow> request" where
  "batch_request ser str s \<equiv>
     \<lparr> req_url = TELEMETRY_URL, req_method = ''POST'',
       req_content_type = ''application/json'', req_redirect = ''follow'',
       req_body = str (map ser (map (deref (groupIdentities s)) (pendingEvents s))) \<rparr>"

subsection \<open>The operations of the emitter\<close>

text \<open>\<^verbatim>\<open>group({ type, id }, props)\<close>, named \<open>group_op\<close> here.\<close>

definition group_op ::
  "GroupIdentityType \<Rightarrow> string option \<Rightarrow> TelemetryProperties \<Rightarrow> nat \<Rightarrow> emitter \<Rightarrow> emitter" where
  "group_op groupType groupId props now s =
     (let s1 = (case groupId of
                  Some g \<Rightarrow> if truthy g
                            then s\<lparr>groupIdentities := AList.update groupType g (groupIdentities s)\<rparr>
                            else s
                | None \<Rightarrow> s)
      in case map_of (groupIdentities s1) groupType of
           None \<Rightarrow> s1
         | Some currentGroupId \<Rightarrow>
             if truthy currentGroupId
             then pushEvent
                    \<lparr> event = ''$groupidentify'',
                      timestamp = now,
                      distinct_id = distinctId s1,
                      person_set = None,
                      properties = spread
                        [(''$group_type'', PStr (group_type_name groupType)),
                         (''$group_key'', PStr currentGroupId),
                         (''$group_set'', PObj (spread [(''name'', PStr currentGroupId)] props))]
                        (commonProperties s1) \<rparr> s1
             else s1)"

text \<open>The two call shapes of \<^verbatim>\<open>identify\<close>: \<^verbatim>\<open>identify(person)\<close> and
  \<^verbatim>\<open>identify(id, person?)\<close>.\<close>

datatype identify_args =
    IdentifyPerson TelemetryProperties
  | IdentifyId string "TelemetryProperties option"

fun identify_id :: "identify_args \<Rightarrow> string option" where
  "identify_id (IdentifyPerson p) = None"
| "identify_id (IdentifyId i p) = Some i"

fun identify_person :: "identify_args \<Rightarrow> TelemetryProperties option" where
  "identify_person (IdentifyPerson p) = Some p"
| "identify_person (IdentifyId i p) = p"

definition identify :: "identify_args \<Rightarrow> nat \<Rightarrow> emitter \<Rightarrow> emitter" where
  "identify args now s =
     (let ido = identify_id args;
          person = identify_person args;
          shouldLinkToNewId = (Some (distinctId s) \<noteq> ido);
          s1 = (if shouldLinkToNewId \<or> length (case person of None \<Rightarrow> [] | Some p \<Rightarrow> p) \<noteq> 0
                then pushEvent
                       \<lparr> event = ''$identify'',
                         timestamp = now,
                         distinct_id = (case ido of None \<Rightarrow> distinctId s | Some i \<Rightarrow> i),
                         person_set = person,
                         properties = spread
                           (if shouldLinkToNewId \<and> truthy_opt ido
                            then [(''$anon_distinct_id'', PStr (distinctId s))] else [])
                           (commonProperties s) \<rparr> s
                else s)
      in case ido of
           None \<Rightarrow> s1
         | Some i \<Rightarrow> if truthy i then s1\<lparr>distinctId := i\<rparr> else s1)"

definition capture :: "string \<Rightarrow> TelemetryProperties \<Rightarrow> nat \<Rightarrow> emitter \<Rightarrow> emitter" where
  "capture ev props now s =
     pushEvent
       \<lparr> event = ev,
         timestamp = now,
         distinct_id = machineId s,
         person_set = None,
         properties = spread (spread [(''$groups'', PGroups)] (commonProperties s)) props \<rparr> s"

definition setProps :: "TelemetryProperties \<Rightarrow> emitter \<Rightarrow> emitter" where
  "setProps props s = s\<lparr>commonProperties := spread (commonProperties s) props\<rparr>"

definition unref :: "emitter \<Rightarrow> emitter" where
  "unref s = debouncedFlush_cancel (s\<lparr>debounceDisabled := True\<rparr>)"

text \<open>The public \<^verbatim>\<open>flush()\<close>: cancel the timer, then await the flush.\<close>

definition flush_public :: "emitter \<Rightarrow> emitter" where
  "flush_public s = flush Awaited (debouncedFlush_cancel s)"

subsection \<open>Sequences of steps\<close>

text \<open>
  Everything that can happen to an emitter, one step at a time: a call of one of its
  operations (with the time read by \<^verbatim>\<open>new Date()\<close> where the operation reads it), a call
  of the public \<^verbatim>\<open>flush()\<close> (up to its \<^verbatim>\<open>await\<close>), the pending timeout of the debounce
  (with the time it reads), the limiter starting the next flush, and the request in
  flight settling (with the result of \<^verbatim>\<open>fetch\<close>).
\<close>

datatype telemetry_op =
    OpIdentify identify_args nat
  | OpGroup GroupIdentityType "string option" TelemetryProperties nat
  | OpCapture string TelemetryProperties nat
  | OpSetProps TelemetryProperties
  | OpUnref
  | OpFlush
  | OpTimer nat
  | OpStart
  | OpSettle fetch_result

fun apply_op ::
  "(TelemetryEvent \<Rightarrow> 'j) \<Rightarrow> ('j list \<Rightarrow> string) \<Rightarrow> telemetry_op \<Rightarrow> emitter \<Rightarrow> emitter" where
  "apply_op ser str (OpIdentify args now) s = identify args now s"
| "apply_op ser str (OpGroup t g props now) s = group_op t g props now s"
| "apply_op ser str (OpCapture ev props now) s = capture ev props now s"
| "apply_op ser str (OpSetProps props) s = setProps props s"
| "apply_op ser str OpUnref s = unref s"
| "apply_op ser str OpFlush s = flush_public s"
| "apply_op ser str (OpTimer t) s = timerExpired t s"
| "apply_op ser str OpStart s = flushLimit_start ser str s"
| "apply_op ser str (OpSettle r) s = flushLimit_settle r s"

fun run_ops ::
  "(TelemetryEvent \<Rightarrow> 'j) \<Rightarrow> ('j list \<Rightarrow> string) \<Rightarrow> telemetry_op list \<Rightarrow> emitter \<Rightarrow> emitter" where
  "run_ops ser str [] s = s"
| "run_ops ser str (x # xs) s = run_ops ser str xs (apply_op ser str x s)"

text \<open>The step in which a request in flight settles.\<close>

fun is_settle :: "telemetry_op \<Rightarrow> bool" where
  "is_settle (OpSettle r) = True"
| "is_settle _ = False"

subsection \<open>A concrete emitter\<close>

text \<open>A host and a freshly created emitter on it, to evaluate the operations on.\<close>

abbreviation linux_host :: host where
  "linux_host \<equiv>
     \<lparr> h_platform = ''linux'', h_arch = ''x64'', h_node = ''18.12.0'', h_v8 = ''10.2'',
       h_openssl = ''3.0.7'', h_os_version = ''#1 SMP'', h_os_release = ''5.15.0'',
       h_env_CI = None, h_ci_provider = None, h_shell = Some ''/bin/sh'', h_EOL = [CHR 0x0A] \<rparr>"

abbreviation emitter0 :: emitter where
  "emitter0 \<equiv> telemetryEmitter linux_host ''machine-1'' ''ses_abc'' ''0.0.23'' 1"


section \<open>Execution router\<close>

text \<open>
  The options of one \<^verbatim>\<open>exec\<close> call: \<^verbatim>\<open>BaseExecOpts\<close> together with the optional
  \<^verbatim>\<open>stdout\<close> and \<^verbatim>\<open>stderr\<close> sinks. \<^verbatim>\<open>BaseExecOpts\<close> is declared in a module that is
  not part of this development, and only its \<^verbatim>\<open>stdin\<close> field is read here, for its
  truthiness; so the field holds any JavaScript value, an attached stream being an
  object.
\<close>

datatype 's js_value =
    JUndefined
  | JNull
  | JBool bool
  | JNumber int
  | JString string
  | JObject 's

fun js_truthy :: "'s js_value \<Rightarrow> bool" where
  "js_truthy JUndefined = False"
| "js_truthy JNull = False"
| "js_truthy (JBool b) = b"
| "js_truthy (JNumber n) = (n \<noteq> 0)"
| "js_truthy (JString x) = (x \<noteq> [])"
| "js_truthy (JObject x) = True"

record ('b, 's) ExecOpts =
  base_opts :: 'b
  stdin :: "'s js_value"
  stdout :: "'s option"
  stderr :: "'s option"


text \<open>\<^verbatim>\<open>exec\<close>: \<^verbatim>\<open>(opts.stdin ? kExec : aExec)(opts)\<close>. The two functions come from
  \<^verbatim>\<open>kubectlExec\<close> and \<^verbatim>\<open>apiExec\<close>, imported by the source, and are parameters; what
  they return (a promise that resolves or rejects) is the type \<open>'r\<close>.\<close>

definition exec ::
  "(('b, 's) ExecOpts \<Rightarrow> 'r) \<Rightarrow> (('b, 's) ExecOpts \<Rightarrow> 'r) \<Rightarrow> ('b, 's) ExecOpts \<Rightarrow> 'r" where
  "exec kExec aExec opts = (if js_truthy (stdin opts) then kExec else aExec) opts"

text \<open>The module's default export builds the two functions once and returns \<^verbatim>\<open>exec\<close>.\<close>

record ('k, 'l) ExecClientConfig =
  kubeconfig :: "string option"
  namespace :: string
  k8sExec :: 'k
  log :: 'l

definition exec_client ::
  "(string option \<Rightarrow> string \<Rightarrow> ('b, 's) ExecOpts \<Rightarrow> 'r) \<Rightarrow>
   (string \<Rightarrow> 'k \<Rightarrow> 'l \<Rightarrow> ('b, 's) ExecOpts \<Rightarrow> 'r) \<Rightarrow>
   ('k, 'l) ExecClientConfig \<Rightarrow> ('b, 's) ExecOpts \<Rightarrow> 'r" where
  "exec_client kubectlExec apiExec cfg =
     exec (kubectlExec (kubeconfig cfg) (namespace cfg))
          (apiExec (namespace cfg) (k8sExec cfg) (log cfg))"




section \<open>Machine driver\<close>

text \<open>
  Of the machine driver, this development holds only a caller
  (\<^verbatim>\<open>ls\<close>, which returns \<^verbatim>\<open>machineDriver.listDeletableResources()\<close>) and the command
  reference. The driver itself is modelled from its specification: a provider account
  holding machines, snapshots and key pairs, and the operations of the adapter contract
  on it.
\<close>

type_synonym EnvironmentId = string

datatype resource_kind = MachineKind | SnapshotKind | KeyPairKind

record DeletableResource =
  res_kind :: resource_kind
  res_id :: string

record Machine =
  machine_id :: string
  machine_env :: "EnvironmentId option"
  machine_created :: nat
  machine_address :: "string \<times> nat"
  machine_meta :: "(string \<times> string) list"
  machine_status :: string

record Snapshot =
  snapshot_id :: string
  snapshot_created :: nat
  snapshot_env :: EnvironmentId

record KeyPair =
  keypair_id :: string

record provider =
  machines :: "Machine list"
  snapshots :: "Snapshot list"
  keypairs :: "KeyPair list"
  created_count :: nat
  clock :: nat

datatype driver_error = ProvisionError | QuotaError | ConfigurationError | NotFound

text \<open>Modelled from the spec: the live machine of an environment, if there is one
  (the lookup behind \<^verbatim>\<open>provision\<close>; the backend adapters are not part of this
  development).\<close>

definition live_machine :: "EnvironmentId \<Rightarrow> provider \<Rightarrow> Machine option" where
  "live_machine E s = find (\<lambda>m. machine_env m = Some E) (machines s)"

text \<open>Modelled from the spec: \<^verbatim>\<open>provision(environmentId, sizingHints) -> Machine\<close> of a
  backend adapter (not part of this development). \<open>fault\<close> is the provider error of
  this call, if any (\<open>ProvisionError\<close>, \<open>QuotaError\<close>, \<open>ConfigurationError\<close>);
  \<open>native_id\<close> is the backend's own naming of the machines it creates and \<open>addr\<close> the
  address the backend gives a new machine. An environment that has a live machine gets
  that machine back; otherwise a machine is created and tagged with the environment id.\<close>

definition provision ::
  "(nat \<Rightarrow> string) \<Rightarrow> (nat \<Rightarrow> string \<times> nat) \<Rightarrow> driver_error option \<Rightarrow> EnvironmentId \<Rightarrow>
   (string \<times> string) list \<Rightarrow> provider \<Rightarrow> driver_error + Machine \<times> provider" where
  "provision native_id addr fault E sizingHints s =
     (case fault of
        Some e \<Rightarrow> Inl e
      | None \<Rightarrow>
          (case live_machine E s of
             Some m \<Rightarrow> Inr (m, s)
           | None \<Rightarrow>
               let m = \<lparr> machine_id = native_id (created_count s),
                         machine_env = Some E,
                         machine_created = clock s,
                         machine_address = addr (created_count s),
                         machine_meta = sizingHints,
                         machine_status = ''running'' \<rparr>
               in Inr (m, s\<lparr>machines := machines s @ [m],
                            created_count := Suc (created_count s),
                            clock := Suc (clock s)\<rparr>)))"

definition machine_resource :: "Machine \<Rightarrow> DeletableResource" where
  "machine_resource m = \<lparr> res_kind = MachineKind, res_id = machine_id m \<rparr>"

definition snapshot_resource :: "Snapshot \<Rightarrow> DeletableResource" where
  "snapshot_resource sn = \<lparr> res_kind = SnapshotKind, res_id = snapshot_id sn \<rparr>"

definition keypair_resource :: "KeyPair \<Rightarrow> DeletableResource" where
  "keypair_resource k = \<lparr> res_kind = KeyPairKind, res_id = keypair_id k \<rparr>"

text \<open>Modelled from the spec: \<^verbatim>\<open>listDeletableResources(kinds?)\<close> of a backend adapter
  (not part of this development): the machines, snapshots and key pairs of the account,
  each as a tagged resource, restricted to the kinds asked for when kinds are given.\<close>

definition listDeletableResources ::
  "resource_kind list option \<Rightarrow> provider \<Rightarrow> DeletableResource list" where
  "listDeletableResources kinds s =
     (let every = map machine_resource (machines s) @ map snapshot_resource (snapshots s)
                  @ map keypair_resource (keypairs s)
      in case kinds of
           None \<Rightarrow> every
         | Some ks \<Rightarrow> filter (\<lambda>r. res_kind r \<in> set ks) every)"

text \<open>Modelled from the spec: whether a resource is absent from the account (already
  deleted, or never there).\<close>

definition absent :: "DeletableResource \<Rightarrow> provider \<Rightarrow> bool" where
  "absent r s = (r \<notin> set (listDeletableResources None s))"

text \<open>Modelled from the spec: the removal that a delete performs on the account.\<close>

definition remove_resource :: "DeletableResource \<Rightarrow> provider \<Rightarrow> provider" where
  "remove_resource r s =
     (case res_kind r of
        MachineKind \<Rightarrow> s\<lparr>machines := filter (\<lambda>m. machine_id m \<noteq> res_id r) (machines s)\<rparr>
      | SnapshotKind \<Rightarrow> s\<lparr>snapshots := filter (\<lambda>sn. snapshot_id sn \<noteq> res_id r) (snapshots s)\<rparr>
      | KeyPairKind \<Rightarrow> s\<lparr>keypairs := filter (\<lambda>k. keypair_id k \<noteq> res_id r) (keypairs s)\<rparr>)"

text \<open>Modelled from the spec: \<^verbatim>\<open>deleteResource\<close> of a backend adapter (not part of this
  development). Deleting a resource that is absent is a no-op under \<open>force\<close> and a
  "not found" error otherwise. (The \<^verbatim>\<open>wait\<close> option decides when the call returns, not
  what it does to the account.)\<close>

definition deleteResource ::
  "DeletableResource \<Rightarrow> bool \<Rightarrow> provider \<Rightarrow> driver_error + provider" where
  "deleteResource r force s =
     (if absent r s then (if force then Inr s else Inl NotFound)
      else Inr (remove_resource r s))"

text \<open>The selectors of \<^verbatim>\<open>purge\<close>, as the command reference lists them:
  \<^verbatim>\<open>--snapshots\<close>, \<^verbatim>\<open>--machines\<close>, \<^verbatim>\<open>--key-pair\<close>, \<^verbatim>\<open>--all\<close>; and \<^verbatim>\<open>--force\<close>.\<close>

record purge_flags =
  flag_snapshots :: bool
  flag_machines :: bool
  flag_key_pair :: bool
  flag_all :: bool
  flag_force :: bool

record purge_report =
  affected :: "DeletableResource list"
  failures :: "(DeletableResource \<times> driver_error) list"

text \<open>Modelled from the spec: the kinds that the selectors of \<^verbatim>\<open>purge\<close> stand for (the
  command is not part of this development): each selector adds its kind, \<^verbatim>\<open>--all\<close> is
  short for the three of them.\<close>

definition selected_kinds :: "purge_flags \<Rightarrow> resource_kind list" where
  "selected_kinds fl =
     (if flag_all fl then [MachineKind, SnapshotKind, KeyPairKind]
      else (if flag_machines fl then [MachineKind] else [])
         @ (if flag_snapshots fl then [SnapshotKind] else [])
         @ (if flag_key_pair fl then [KeyPairKind] else []))"

text \<open>Modelled from the spec: the deletions of a purge (not part of this development),
  one resource after the other; a failure is recorded and the others go on.\<close>

fun delete_each ::
  "bool \<Rightarrow> DeletableResource list \<Rightarrow> provider \<times> purge_report \<Rightarrow> provider \<times> purge_report" where
  "delete_each force [] acc = acc"
| "delete_each force (r # rs) (s, rep) =
     (case deleteResource r force s of
        Inl e \<Rightarrow> delete_each force rs (s, rep\<lparr>failures := failures rep @ [(r, e)]\<rparr>)
      | Inr s' \<Rightarrow>
          delete_each force rs
            (s', if absent r s then rep else rep\<lparr>affected := affected rep @ [r]\<rparr>))"

text \<open>Modelled from the spec: the \<^verbatim>\<open>purge\<close> command (not part of this development): the
  resources of the selected kinds are listed and deleted, and the report says which
  were affected and which failed. The command reference describes \<^verbatim>\<open>--force\<close> as "Do
  not ask for confirmation"; \<open>confirmed\<close> is the answer when the question is asked.\<close>

definition purge :: "purge_flags \<Rightarrow> bool \<Rightarrow> provider \<Rightarrow> provider \<times> purge_report" where
  "purge fl confirmed s =
     (let targets = listDeletableResources (Some (selected_kinds fl)) s
      in if flag_force fl \<or> confirmed
         then delete_each (flag_force fl) targets (s, \<lparr> affected = [], failures = [] \<rparr>)
         else (s, \<lparr> affected = [], failures = [] \<rparr>))"

subsection \<open>A concrete account\<close>

text \<open>An account with one machine, two snapshots and a key pair, to evaluate the
  operations on.\<close>

abbreviation account0 :: provider where
  "account0 \<equiv>
     \<lparr> machines = [\<lparr> machine_id = ''vm-0'', machine_env = Some ''proj-abc123'',
                     machine_created = 5, machine_address = (''10.0.0.4'', 22),
                     machine_meta = [], machine_status = ''running'' \<rparr>],
       snapshots = [\<lparr> snapshot_id = ''snap-1'', snapshot_created = 1, snapshot_env = ''proj-abc123'' \<rparr>,
                    \<lparr> snapshot_id = ''snap-2'', snapshot_created = 2, snapshot_env = ''proj-abc123'' \<rparr>],
       keypairs = [\<lparr> keypair_id = ''key-1'' \<rparr>],
       created_count = 1,
       clock = 6 \<rparr>"

section \<open>Properties of the telemetry emitter\<close>

subsection \<open>What \<open>pushEvent\<close> touches\<close>

lemmas step_defs =
  flush_def finish_def invokeFunc_def debouncedFlush_def timerExpired_def
  debouncedFlush_cancel_def pushEvent_def Let_def

lemma machineId_pushEvent: "machineId (pushEvent e s) = machineId s"
  by (simp add: step_defs)

lemma pending_pushEvent: "pendingEvents (pushEvent e s) = pendingEvents s @ [e]"
  by (simp add: step_defs)

lemma requests_pushEvent: "requests (pushEvent e s) = requests s"
  by (simp add: step_defs)

lemma inflight_pushEvent: "inflight (pushEvent e s) = inflight s"
  by (simp add: step_defs)

lemma settled_pushEvent: "settled (pushEvent e s) = settled s"
  by (simp add: step_defs)

lemma unhandled_pushEvent: "unhandled (pushEvent e s) = unhandled s"
  by (simp add: step_defs)

lemma stderr_pushEvent: "stderr_lines (pushEvent e s) = stderr_lines s"
  by (simp add: step_defs)

lemma pushEvent_disabled:
  "debounceDisabled s \<Longrightarrow>
     waiting (pushEvent e s) = waiting s @ [Detached] \<and> timerId (pushEvent e s) = timerId s"
  by (simp add: step_defs)

lemma shouldInvoke_pending [simp]:
  "shouldInvoke t (s\<lparr>pendingEvents := q\<rparr>) = shouldInvoke t s"
  by (simp add: shouldInvoke_def split: option.splits)

lemma pushEvent_enabled:
  "\<not> debounceDisabled s \<Longrightarrow>
     timerId (pushEvent e s) \<and>
     waiting (pushEvent e s) =
       (if timerId s \<and> shouldInvoke (timestamp e) s then waiting s @ [Detached] else waiting s)"
  by (simp add: step_defs)

subsection \<open>The machine id never changes\<close>

lemma machineId_start: "machineId (flushLimit_start ser str s) = machineId s"
  by (auto simp: flushLimit_start_def flush_send_def finish_def Let_def
      split: list.splits owner.splits option.splits)

lemma machineId_settle: "machineId (flushLimit_settle r s) = machineId s"
  by (auto simp: flushLimit_settle_def flush_settle_def finish_def
      split: option.splits fetch_result.splits owner.splits outcome.splits)

lemma machineId_apply_op: "machineId (apply_op ser str x s) = machineId s"
  by (cases x)
     (auto simp: identify_def group_op_def capture_def setProps_def unref_def flush_public_def
        machineId_pushEvent machineId_start machineId_settle step_defs split: option.splits)

lemma machineId_run_ops: "machineId (run_ops ser str xs s) = machineId s"
  by (induction xs arbitrary: s) (simp_all add: machineId_apply_op)

lemma pending_group:
  "pendingEvents (group_op t g gp now s) = pendingEvents s \<or>
   (\<exists>e. pendingEvents (group_op t g gp now s) = pendingEvents s @ [e] \<and>
        distinct_id e = distinctId s)"
  by (auto simp: group_op_def pending_pushEvent Let_def split: option.splits)

lemma pending_identify:
  "pendingEvents (identify args now s) = pendingEvents s \<or>
   (\<exists>e. pendingEvents (identify args now s) = pendingEvents s @ [e] \<and>
        distinct_id e = (case identify_id args of None \<Rightarrow> distinctId s | Some i \<Rightarrow> i))"
  by (auto simp: identify_def pending_pushEvent Let_def split: option.splits)

subsection \<open>Capture keeps the machine id (C9)\<close>

text \<open>
  C9: after any sequence of steps on a newly created emitter (calls of \<^verbatim>\<open>identify\<close>
  among them), the event that \<^verbatim>\<open>capture\<close> appends to the queue carries the machine id
  the emitter was created with as its \<open>distinct_id\<close>. An event of \<^verbatim>\<open>group\<close> carries
  the current distinct id, and an event of \<^verbatim>\<open>identify\<close> the id it is given, or the
  current distinct id when it is given none.
\<close>

theorem capture_keeps_machine_id:
  "(\<exists>e. pendingEvents (capture ev props now (run_ops ser str xs (telemetryEmitter h mid rid ver dbg)))
          = pendingEvents (run_ops ser str xs (telemetryEmitter h mid rid ver dbg)) @ [e]
        \<and> event e = ev \<and> distinct_id e = mid)
   \<and> (pendingEvents (group_op t g gp now s) = pendingEvents s \<or>
      (\<exists>e. pendingEvents (group_op t g gp now s) = pendingEvents s @ [e] \<and>
           distinct_id e = distinctId s))
   \<and> (pendingEvents (identify args now s) = pendingEvents s \<or>
      (\<exists>e. pendingEvents (identify args now s) = pendingEvents s @ [e] \<and>
           distinct_id e = (case identify_id args of None \<Rightarrow> distinctId s | Some i \<Rightarrow> i)))"
proof (intro conjI)
  have "machineId (run_ops ser str xs (telemetryEmitter h mid rid ver dbg)) = mid"
    by (simp add: machineId_run_ops telemetryEmitter_def)
  then show "\<exists>e. pendingEvents (capture ev props now (run_ops ser str xs (telemetryEmitter h mid rid ver dbg)))
          = pendingEvents (run_ops ser str xs (telemetryEmitter h mid rid ver dbg)) @ [e]
        \<and> event e = ev \<and> distinct_id e = mid"
    by (simp add: capture_def pending_pushEvent)
next
  show "pendingEvents (group_op t g gp now s) = pendingEvents s \<or>
      (\<exists>e. pendingEvents (group_op t g gp now s) = pendingEvents s @ [e] \<and>
           distinct_id e = distinctId s)"
    by (rule pending_group)
next
  show "pendingEvents (identify args now s) = pendingEvents s \<or>
      (\<exists>e. pendingEvents (identify args now s) = pendingEvents s @ [e] \<and>
           distinct_id e = (case identify_id args of None \<Rightarrow> distinctId s | Some i \<Rightarrow> i))"
    by (rule pending_identify)
qed

text \<open>C9 after \<^verbatim>\<open>identify('user-7')\<close>: the current distinct id is \<open>user-7\<close>, and the
  captured event still carries \<open>machine-1\<close>.\<close>

theorem capture_keeps_machine_id_witness:
  "distinctId (run_ops event concat [OpIdentify (IdentifyId ''user-7'' None) 1] emitter0) = ''user-7''
   \<and> (\<exists>e. pendingEvents (capture ''up'' [] 2
                (run_ops event concat [OpIdentify (IdentifyId ''user-7'' None) 1] emitter0))
          = pendingEvents (run_ops event concat [OpIdentify (IdentifyId ''user-7'' None) 1] emitter0) @ [e]
        \<and> event e = ''up'' \<and> distinct_id e = ''machine-1'')"
proof -
  have "distinctId (run_ops event concat [OpIdentify (IdentifyId ''user-7'' None) 1] emitter0) = ''user-7''"
    by (simp add: identify_def telemetryEmitter_def truthy_def step_defs)
  then show ?thesis
    using capture_keeps_machine_id [of "''up''" "[]" 2 event concat
        "[OpIdentify (IdentifyId ''user-7'' None) 1]" linux_host "''machine-1''"
        "''ses_abc''" "''0.0.23''" 1]
    by simp
qed

subsection \<open>What the steps leave alone\<close>

lemma debug_pushEvent: "debug (pushEvent e s) = debug s"
  by (simp add: step_defs)

lemma eol_pushEvent: "eol (pushEvent e s) = eol s"
  by (simp add: step_defs)

lemmas pushEvent_frame =
  requests_pushEvent inflight_pushEvent settled_pushEvent unhandled_pushEvent stderr_pushEvent
  debug_pushEvent eol_pushEvent

text \<open>
  A step that neither starts a flush nor settles a request touches neither the limiter's
  running flush nor the outside world.
\<close>

lemma call_frame:
  "x \<noteq> OpStart \<Longrightarrow> \<not> is_settle x \<Longrightarrow>
     inflight (apply_op ser str x s) = inflight s \<and>
     requests (apply_op ser str x s) = requests s \<and>
     settled (apply_op ser str x s) = settled s \<and>
     unhandled (apply_op ser str x s) = unhandled s \<and>
     stderr_lines (apply_op ser str x s) = stderr_lines s \<and>
     debug (apply_op ser str x s) = debug s \<and>
     eol (apply_op ser str x s) = eol s"
  by (cases x)
     (auto simp: identify_def group_op_def capture_def setProps_def unref_def flush_public_def
        pushEvent_frame flush_def invokeFunc_def timerExpired_def debouncedFlush_cancel_def Let_def
        split: option.splits)

lemma start_busy: "inflight s \<noteq> None \<Longrightarrow> flushLimit_start ser str s = s"
  by (simp add: flushLimit_start_def)

lemma busy_step:
  assumes "\<not> is_settle x" and "inflight s = Some who"
  shows "inflight (apply_op ser str x s) = Some who \<and>
     requests (apply_op ser str x s) = requests s \<and>
     settled (apply_op ser str x s) = settled s \<and>
     unhandled (apply_op ser str x s) = unhandled s \<and>
     stderr_lines (apply_op ser str x s) = stderr_lines s \<and>
     debug (apply_op ser str x s) = debug s \<and>
     eol (apply_op ser str x s) = eol s"
proof (cases "x = OpStart")
  case True
  with assms(2) show ?thesis by (simp add: start_busy)
next
  case False
  with assms show ?thesis using call_frame [of x ser str s] by simp
qed

text \<open>
  While a request is in flight, the limiter starts no other flush; so whatever happens
  before the request settles, no second request is made and no awaited flush ends.
\<close>

lemma busy_run:
  "list_all (\<lambda>x. \<not> is_settle x) xs \<Longrightarrow> inflight s = Some who \<Longrightarrow>
     inflight (run_ops ser str xs s) = Some who \<and>
     requests (run_ops ser str xs s) = requests s \<and>
     settled (run_ops ser str xs s) = settled s \<and>
     unhandled (run_ops ser str xs s) = unhandled s \<and>
     stderr_lines (run_ops ser str xs s) = stderr_lines s \<and>
     debug (run_ops ser str xs s) = debug s \<and>
     eol (run_ops ser str xs s) = eol s"
proof (induction xs arbitrary: s)
  case Nil
  then show ?case by simp
next
  case (Cons x xs)
  from Cons.prems have x: "\<not> is_settle x" and xs: "list_all (\<lambda>x. \<not> is_settle x) xs"
    by simp_all
  note step = busy_step [OF x Cons.prems(2), of ser str]
  from step have "inflight (apply_op ser str x s) = Some who" by simp
  from Cons.IH [OF xs this] step show ?case by simp
qed

subsection \<open>The two steps of a flush\<close>


lemma start_nonempty:
  "inflight s = None \<Longrightarrow> waiting s = who # w \<Longrightarrow> pendingEvents s \<noteq> [] \<Longrightarrow>
     flushLimit_start ser str s =
       s\<lparr>waiting := w, pendingEvents := [],
         requests := requests s @ [batch_request ser str s], inflight := Some who\<rparr>"
  by (simp add: flushLimit_start_def flush_send_def Let_def)

lemma settle_fields:
  "inflight s = Some who \<Longrightarrow>
     pendingEvents (flushLimit_settle r s) = pendingEvents s \<and>
     requests (flushLimit_settle r s) = requests s \<and>
     inflight (flushLimit_settle r s) = None"
  by (auto simp: flushLimit_settle_def flush_settle_def finish_def
      split: fetch_result.splits owner.splits outcome.splits)


lemma settle_not_ok:
  "inflight s = Some who \<Longrightarrow>
     stderr_lines (flushLimit_settle (Response False status statusText u) s) =
       stderr_lines s @
         (if debug s \<noteq> 0
          then [''Error sending telemetry: '' @ show_nat status @ '' '' @ statusText @ '' '' @ u @ eol s]
          else []) \<and>
     unhandled (flushLimit_settle (Response False status statusText u) s) = unhandled s \<and>
     settled (flushLimit_settle (Response False status statusText u) s) =
       settled s @ (if who = Awaited then [Resolved] else [])"
  by (cases who) (auto simp: flushLimit_settle_def flush_settle_def finish_def)


subsection \<open>Capture and the network (C7)\<close>

lemma requests_not_start: "x \<noteq> OpStart \<Longrightarrow> requests (apply_op ser str x s) = requests s"
proof (cases "is_settle x")
  case True
  then obtain r where "x = OpSettle r" by (cases x) simp_all
  then show ?thesis
  proof (cases "inflight s")
    case None
    with \<open>x = OpSettle r\<close> show ?thesis by (simp add: flushLimit_settle_def)
  next
    case (Some who)
    with \<open>x = OpSettle r\<close> show ?thesis by (simp add: settle_fields)
  qed
next
  case False
  assume "x \<noteq> OpStart"
  with False show ?thesis using call_frame [of x ser str s] by simp
qed

text \<open>
  C7, as stated: every call to \<^verbatim>\<open>capture\<close> only appends the event to the pending queue
  and schedules a debounced flush. This fails once \<^verbatim>\<open>unref\<close> has been called: the
  branch \<^verbatim>\<open>if (debounceDisabled)\<close> of \<^verbatim>\<open>pushEvent\<close> then calls \<^verbatim>\<open>flush()\<close> itself
  (\<^verbatim>\<open>void flush()\<close>) and does not call the debounced flush. After \<^verbatim>\<open>unref\<close> on a fresh
  emitter, \<^verbatim>\<open>capture\<close> has set no timeout and has handed one flush to the limiter.
\<close>

theorem capture_after_unref_counterexample:
  "\<not> (timerId (capture ''exit'' [] 2 (unref emitter0))
      \<and> waiting (capture ''exit'' [] 2 (unref emitter0)) = waiting (unref emitter0))"
  by (simp add: capture_def unref_def telemetryEmitter_def step_defs)

text \<open>
  C7, amended: a call to \<^verbatim>\<open>capture\<close> appends exactly one event to the pending queue,
  hands no request to \<^verbatim>\<open>fetch\<close> and ends no flush; the sending is left to a flush that
  runs later and that the call does not await. While the debounce is enabled the call
  leaves a timeout pending, and it calls \<^verbatim>\<open>flush()\<close> at once exactly when a timeout was
  already pending and it is time to invoke (3000 ms since the previous call, or 8000 ms
  since the last invocation); once \<^verbatim>\<open>unref\<close> has disabled the debounce it calls
  \<^verbatim>\<open>flush()\<close> at once and leaves the timeout alone. \<^verbatim>\<open>identify\<close> and \<^verbatim>\<open>group\<close> hand
  no request to \<^verbatim>\<open>fetch\<close> either: of all the steps, only the limiter starting a flush
  adds a request.
\<close>

theorem capture_does_not_send:
  "(\<exists>e. pendingEvents (capture ev props now s) = pendingEvents s @ [e])
   \<and> requests (capture ev props now s) = requests s
   \<and> inflight (capture ev props now s) = inflight s
   \<and> settled (capture ev props now s) = settled s
   \<and> (\<not> debounceDisabled s \<longrightarrow>
        timerId (capture ev props now s) \<and>
        waiting (capture ev props now s) =
          (if timerId s \<and> shouldInvoke now s then waiting s @ [Detached] else waiting s))
   \<and> (debounceDisabled s \<longrightarrow>
        waiting (capture ev props now s) = waiting s @ [Detached] \<and>
        timerId (capture ev props now s) = timerId s)
   \<and> requests (identify args t1 s) = requests s
   \<and> requests (group_op t g gp t2 s) = requests s
   \<and> (x \<noteq> OpStart \<longrightarrow> requests (apply_op ser str x s) = requests s)"
proof -
  let ?e = "\<lparr> event = ev, timestamp = now, distinct_id = machineId s, person_set = None,
              properties = spread (spread [(''$groups'', PGroups)] (commonProperties s)) props \<rparr>"
  have c: "capture ev props now s = pushEvent ?e s"
    by (simp add: capture_def)
  have i: "requests (identify args t1 s) = requests s"
    using requests_not_start [of "OpIdentify args t1" ser str s] by simp
  have gr: "requests (group_op t g gp t2 s) = requests s"
    using requests_not_start [of "OpGroup t g gp t2" ser str s] by simp
  show ?thesis
    using pushEvent_enabled [of s ?e] pushEvent_disabled [of s ?e] i gr
      requests_not_start [of x ser str s]
    by (simp add: c pending_pushEvent pushEvent_frame)
qed

text \<open>
  The amended C7 on a fresh emitter (a timeout is set, no flush), on a second capture
  3199 ms later with the timeout still pending (one flush called at once), and after
  \<^verbatim>\<open>unref\<close> (one flush called at once).
\<close>

theorem capture_does_not_send_witness:
  "\<not> debounceDisabled emitter0
   \<and> timerId (capture ''up'' [] 1 emitter0)
   \<and> waiting (capture ''up'' [] 1 emitter0) = []
   \<and> requests (capture ''up'' [] 1 emitter0) = []
   \<and> \<not> debounceDisabled (capture ''up'' [] 1 emitter0)
   \<and> waiting (capture ''down'' [] 3200 (capture ''up'' [] 1 emitter0)) = [Detached]
   \<and> requests (capture ''down'' [] 3200 (capture ''up'' [] 1 emitter0)) = []
   \<and> debounceDisabled (unref emitter0)
   \<and> waiting (capture ''exit'' [] 2 (unref emitter0)) = [Detached]
   \<and> requests (capture ''exit'' [] 2 (unref emitter0)) = []
   \<and> OpCapture ''up'' [] 1 \<noteq> OpStart
   \<and> requests (apply_op event concat (OpCapture ''up'' [] 1) emitter0) = []"
proof -
  let ?s1 = "capture ''up'' [] 1 emitter0"
  have a: "\<not> debounceDisabled emitter0" "\<not> timerId emitter0" "waiting emitter0 = []"
    "requests emitter0 = []"
    by (simp_all add: telemetryEmitter_def)
  have b: "\<not> debounceDisabled ?s1" "timerId ?s1" "shouldInvoke 3200 ?s1" "waiting ?s1 = []"
    "requests ?s1 = []"
    by (simp_all add: capture_def telemetryEmitter_def step_defs shouldInvoke_def wait_ms_def
          maxWait_ms_def)
  have c: "debounceDisabled (unref emitter0)" "waiting (unref emitter0) = []"
    "requests (unref emitter0) = []"
    by (simp_all add: unref_def telemetryEmitter_def step_defs)
  have d: "OpCapture ''up'' [] 1 \<noteq> OpStart" by simp
  show ?thesis
    using capture_does_not_send [of "''up''" "[]" 1 emitter0 "IdentifyPerson []" 0 Profile None "[]" 0
            "OpCapture ''up'' [] 1" event concat]
          capture_does_not_send [of "''down''" "[]" 3200 ?s1 "IdentifyPerson []" 0 Profile None "[]" 0
            "OpCapture ''up'' [] 1" event concat]
          capture_does_not_send [of "''exit''" "[]" 2 "unref emitter0" "IdentifyPerson []" 0 Profile None "[]" 0
            "OpCapture ''up'' [] 1" event concat]
          a b c d
    by simp
qed


subsection \<open>The public flush and the queue (C8)\<close>

lemmas run_defs =
  telemetryEmitter_def capture_def unref_def flush_public_def flushLimit_start_def
  flushLimit_settle_def flush_send_def flush_settle_def deref_def TELEMETRY_URL_def
  shouldInvoke_def wait_ms_def maxWait_ms_def step_defs


lemma flush_public_fields:
  "waiting (flush_public s) = waiting s @ [Awaited] \<and> \<not> timerId (flush_public s) \<and>
   pendingEvents (flush_public s) = pendingEvents s \<and> requests (flush_public s) = requests s \<and>
   inflight (flush_public s) = inflight s \<and> settled (flush_public s) = settled s \<and>
   groupIdentities (flush_public s) = groupIdentities s"
  by (simp add: flush_public_def flush_def debouncedFlush_cancel_def)




subsection \<open>A failed send loses the batch (C10)\<close>

text \<open>
  C10, as stated: a failure of the send is at most logged. This fails for a network
  error: nothing catches the rejection of \<^verbatim>\<open>await req\<close>, so the flush rejects and
  nothing is written. An awaited \<^verbatim>\<open>flush()\<close> rejects to its caller; a flush that nobody
  awaits (here the one that \<^verbatim>\<open>capture\<close> calls after \<^verbatim>\<open>unref\<close>) leaves an unhandled
  rejection.
\<close>

theorem network_error_counterexample:
  "settled (run_ops event concat
      [OpCapture ''up'' [] 1, OpFlush, OpStart, OpSettle (FetchError ''ECONNREFUSED'')] emitter0)
     = [Rejected ''ECONNREFUSED'']
   \<and> stderr_lines (run_ops event concat
      [OpCapture ''up'' [] 1, OpFlush, OpStart, OpSettle (FetchError ''ECONNREFUSED'')] emitter0) = []
   \<and> unhandled (run_ops event concat
      [OpUnref, OpCapture ''exit'' [] 1, OpStart, OpSettle (FetchError ''ECONNREFUSED'')] emitter0)
     = [''ECONNREFUSED'']
   \<and> stderr_lines (run_ops event concat
      [OpUnref, OpCapture ''exit'' [] 1, OpStart, OpSettle (FetchError ''ECONNREFUSED'')] emitter0) = []"
  by (simp add: run_defs)

text \<open>
  C10, amended: on a queue that is not empty, the flush empties the queue and hands the
  request to \<^verbatim>\<open>fetch\<close> before it awaits the response. Whatever the result of the
  request (a response, ok or not, or a network error) and whatever happens while it is in
  flight, the events of the batch do not come back to the queue and no second request is
  made: they are lost if the send failed, and a further flush with nothing captured since
  finds nothing to send. A response that is not ok is at most logged: one line on stderr
  when \<^verbatim>\<open>debug\<close> is set, none otherwise, and the flush resolves.
\<close>

theorem failed_send_loses_batch:
  assumes "inflight s = None" and "waiting s = who # w" and "pendingEvents s \<noteq> []"
    and "list_all (\<lambda>x. \<not> is_settle x) during"
  shows
    "pendingEvents (flushLimit_start ser str s) = []
   \<and> inflight (flushLimit_start ser str s) = Some who
   \<and> requests (flushLimit_start ser str s) = requests s @ [batch_request ser str s]
   \<and> pendingEvents (flushLimit_settle r (run_ops ser str during (flushLimit_start ser str s)))
       = pendingEvents (run_ops ser str during (flushLimit_start ser str s))
   \<and> requests (flushLimit_settle r (run_ops ser str during (flushLimit_start ser str s)))
       = requests s @ [batch_request ser str s]
   \<and> inflight (flushLimit_settle r (run_ops ser str during (flushLimit_start ser str s))) = None
   \<and> (during = [] \<longrightarrow>
         pendingEvents (flushLimit_settle r (flushLimit_start ser str s)) = [] \<and>
         flush_send ser str (flushLimit_settle r (flushLimit_start ser str s)) = None)
   \<and> (\<forall>status statusText u. r = Response False status statusText u \<longrightarrow>
         stderr_lines (flushLimit_settle r (run_ops ser str during (flushLimit_start ser str s)))
           = stderr_lines s @
               (if debug s \<noteq> 0
                then [''Error sending telemetry: '' @ show_nat status @ '' '' @ statusText @ '' '' @ u @ eol s]
                else [])
       \<and> unhandled (flushLimit_settle r (run_ops ser str during (flushLimit_start ser str s)))
           = unhandled s
       \<and> settled (flushLimit_settle r (run_ops ser str during (flushLimit_start ser str s)))
           = settled s @ (if who = Awaited then [Resolved] else []))"
proof -
  let ?s1 = "flushLimit_start ser str s"
  let ?s2 = "run_ops ser str during ?s1"
  have st: "?s1 = s\<lparr>waiting := w, pendingEvents := [],
         requests := requests s @ [batch_request ser str s], inflight := Some who\<rparr>"
    using assms(1,2,3) by (rule start_nonempty)
  have busy: "inflight ?s1 = Some who" by (simp add: st)
  note during = busy_run [OF assms(4) busy, of ser str]
  from during have busy2: "inflight ?s2 = Some who" by simp
  have q1: "pendingEvents ?s1 = []" and r1: "requests ?s1 = requests s @ [batch_request ser str s]"
    by (simp_all add: st)
  have same1: "stderr_lines ?s1 = stderr_lines s" "debug ?s1 = debug s" "eol ?s1 = eol s"
    "unhandled ?s1 = unhandled s" "settled ?s1 = settled s"
    by (simp_all add: st)
  note after = settle_fields [OF busy2, of r]
  have alone: "during = [] \<longrightarrow>
         pendingEvents (flushLimit_settle r ?s1) = [] \<and>
         flush_send ser str (flushLimit_settle r ?s1) = None"
    using settle_fields [OF busy, of r] q1 by (simp add: flush_send_def)
  have notok: "\<forall>status statusText u. r = Response False status statusText u \<longrightarrow>
         stderr_lines (flushLimit_settle r ?s2)
           = stderr_lines s @
               (if debug s \<noteq> 0
                then [''Error sending telemetry: '' @ show_nat status @ '' '' @ statusText @ '' '' @ u @ eol s]
                else [])
       \<and> unhandled (flushLimit_settle r ?s2) = unhandled s
       \<and> settled (flushLimit_settle r ?s2) = settled s @ (if who = Awaited then [Resolved] else [])"
  proof (intro allI impI)
    fix status statusText u
    assume "r = Response False status statusText u"
    then show "stderr_lines (flushLimit_settle r ?s2)
           = stderr_lines s @
               (if debug s \<noteq> 0
                then [''Error sending telemetry: '' @ show_nat status @ '' '' @ statusText @ '' '' @ u @ eol s]
                else [])
       \<and> unhandled (flushLimit_settle r ?s2) = unhandled s
       \<and> settled (flushLimit_settle r ?s2) = settled s @ (if who = Awaited then [Resolved] else [])"
      using settle_not_ok [OF busy2, of status statusText u] during same1 by simp
  qed
  from q1 busy r1 after during alone notok show ?thesis by simp
qed

text \<open>
  The amended C10 on an emitter with one captured event and an awaited flush: a network
  error, and a response with status 500.
\<close>

theorem failed_send_loses_batch_witness:
  "inflight (run_ops event concat [OpCapture ''up'' [] 1, OpFlush] emitter0) = None
   \<and> waiting (run_ops event concat [OpCapture ''up'' [] 1, OpFlush] emitter0) = [Awaited]
   \<and> pendingEvents (run_ops event concat [OpCapture ''up'' [] 1, OpFlush] emitter0) \<noteq> []
   \<and> list_all (\<lambda>x. \<not> is_settle x) []
   \<and> pendingEvents (flushLimit_start event concat
        (run_ops event concat [OpCapture ''up'' [] 1, OpFlush] emitter0)) = []
   \<and> pendingEvents (flushLimit_settle (FetchError ''ECONNREFUSED'')
        (flushLimit_start event concat
          (run_ops event concat [OpCapture ''up'' [] 1, OpFlush] emitter0))) = []
   \<and> length (requests (flushLimit_settle (FetchError ''ECONNREFUSED'')
        (flushLimit_start event concat
          (run_ops event concat [OpCapture ''up'' [] 1, OpFlush] emitter0)))) = 1
   \<and> length (stderr_lines (flushLimit_settle (Response False 500 ''Internal Server Error'' TELEMETRY_URL)
        (flushLimit_start event concat
          (run_ops event concat [OpCapture ''up'' [] 1, OpFlush] emitter0)))) = 1
   \<and> settled (flushLimit_settle (Response False 500 ''Internal Server Error'' TELEMETRY_URL)
        (flushLimit_start event concat
          (run_ops event concat [OpCapture ''up'' [] 1, OpFlush] emitter0))) = [Resolved]"
proof -
  let ?s = "run_ops event concat [OpCapture ''up'' [] 1, OpFlush] emitter0"
  have a: "inflight ?s = None" "waiting ?s = [Awaited]" "pendingEvents ?s \<noteq> []"
    by (simp_all add: run_defs)
  have b: "list_all (\<lambda>x. \<not> is_settle x) []" by simp
  have c: "requests ?s = []" "stderr_lines ?s = []" "debug ?s \<noteq> 0" "settled ?s = []"
    by (simp_all add: run_defs)
  show ?thesis
    using failed_send_loses_batch [OF a b, of event concat "FetchError ''ECONNREFUSED''"]
          failed_send_loses_batch [OF a b, of event concat "Response False 500 ''Internal Server Error'' TELEMETRY_URL"]
          a b c
    by simp
qed

section \<open>Properties of the execution router\<close>







section \<open>Properties of the machine driver\<close>

subsection \<open>Provisioning is idempotent (C2)\<close>


lemma find_snoc_old: "find P xs = Some y \<Longrightarrow> find P (xs @ [x]) = Some y"
  by (induction xs) (auto split: if_splits)


text \<open>A machine that is live stays so through the provisioning of any environment.\<close>

lemma provision_keeps_live:
  "live_machine E s = Some m \<Longrightarrow> provision nid addr f E' h s = Inr (m', s') \<Longrightarrow>
     live_machine E s' = Some m"
  by (auto simp: provision_def live_machine_def Let_def find_snoc_old split: option.splits)



subsection \<open>Purge without selectors (C4)\<close>

lemma selected_kinds_none:
  "\<not> flag_machines fl \<Longrightarrow> \<not> flag_snapshots fl \<Longrightarrow> \<not> flag_key_pair fl \<Longrightarrow> \<not> flag_all fl \<Longrightarrow>
     selected_kinds fl = []"
  by (simp add: selected_kinds_def)

lemma list_no_kinds: "listDeletableResources (Some []) s = []"
  by (simp add: listDeletableResources_def)

text \<open>The scenario of the specification: \<^verbatim>\<open>purge --snapshots --force\<close> on an account with
  two snapshots deletes both and reports no failure.\<close>

lemma purge_snapshots_scenario:
  "purge \<lparr> flag_snapshots = True, flag_machines = False, flag_key_pair = False,
           flag_all = False, flag_force = True \<rparr> False account0
     = (account0\<lparr>snapshots := []\<rparr>,
        \<lparr> affected = [\<lparr> res_kind = SnapshotKind, res_id = ''snap-1'' \<rparr>,
                      \<lparr> res_kind = SnapshotKind, res_id = ''snap-2'' \<rparr>],
          failures = [] \<rparr>)"
  by (simp add: purge_def selected_kinds_def listDeletableResources_def machine_resource_def
        snapshot_resource_def keypair_resource_def deleteResource_def absent_def
        remove_resource_def)

text \<open>
  C4: with none of the selectors \<^verbatim>\<open>--machines\<close>, \<^verbatim>\<open>--snapshots\<close>, \<^verbatim>\<open>--key-pair\<close>,
  \<^verbatim>\<open>--all\<close> set, a purge leaves the account exactly as it was and reports no affected
  resource and no failure, on every account, with or without \<^verbatim>\<open>--force\<close>, whatever the
  answer to the confirmation.
\<close>

theorem purge_without_selectors:
  assumes "\<not> flag_machines fl" and "\<not> flag_snapshots fl" and "\<not> flag_key_pair fl"
    and "\<not> flag_all fl"
  shows "purge fl confirmed s = (s, \<lparr> affected = [], failures = [] \<rparr>)"
proof -
  have "selected_kinds fl = []"
    using assms by (rule selected_kinds_none)
  then have "listDeletableResources (Some (selected_kinds fl)) s = []"
    by (simp add: list_no_kinds)
  then show ?thesis
    by (simp add: purge_def)
qed

text \<open>C4 on the account with a machine, two snapshots and a key pair.\<close>

theorem purge_without_selectors_witness:
  "purge \<lparr> flag_snapshots = False, flag_machines = False, flag_key_pair = False,
           flag_all = False, flag_force = True \<rparr> True account0
     = (account0, \<lparr> affected = [], failures = [] \<rparr>)"
  using purge_without_selectors
          [of "\<lparr> flag_snapshots = False, flag_machines = False, flag_key_pair = False,
                 flag_all = False, flag_force = True \<rparr>" True account0]
  by simp

end
